theory Spec2Isabelle
  imports Complex_Main
begin

section \<open>JavaScript values\<close>

text \<open>
  A finite JavaScript number is the real number it denotes. The arithmetic of the bridge
  (the flip, the scaling by 2.4 and the translation) rounds every result to a double, and
  the literal \<open>2.4\<close>, which is not a double, is the double nearest to it; the score
  threshold is the fraction \<open>0.3\<close>. \<open>NaN\<close>, the infinities and the sign of zero are
  not modelled. Strings are \<open>string\<close>; an object literal is the list of its properties
  in the order they are written.
\<close>

text \<open>
  \<open>posedetection.movenet.modelType\<close> belongs to the pose-detection library; its three
  members used by the program are kept as an opaque enumeration.
\<close>

datatype movenet_modelType = SINGLEPOSE_LIGHTNING | SINGLEPOSE_THUNDER | MULTIPOSE_LIGHTNING

datatype jsval =
    JUndefined
  | JBool bool
  | JNum real
  | JStr string
  | JModelType movenet_modelType
  | JObj "(string \<times> jsval) list"

type_synonym config = "(string \<times> jsval) list"

text \<open>The enumeration of \<open>src/dist/types.js\<close>.\<close>

datatype SupportedModels = MoveNet | BlazePose | PoseNet

text \<open>Errors: a \<open>TypeError\<close> raised by the program's own property reads, or an error
  thrown by one of the libraries (with its message).\<close>

datatype js_error = TypeError | Thrown string

section \<open>The application state\<close>

text \<open>\<open>STATE.modelConfig\<close>: any property may be missing (\<open>JUndefined\<close>).\<close>

record modelConfig =
  cfg_type :: jsval
  customModel :: jsval
  enableTracking :: jsval
  maxPoses :: jsval

text \<open>\<open>STATE\<close> of \<open>./params\<close>, with the five dirty flags.\<close>

record app_state =
  model :: SupportedModels
  backend :: string
  flags :: config
  modelConfig :: modelConfig
  isModelChanged :: bool
  isFlagChanged :: bool
  isBackendChanged :: bool
  isTargetFPSChanged :: bool
  isSizeOptionChanged :: bool

section \<open>The detector factory: \<open>createDetector\<close>\<close>

text \<open>\<open>STATE.backend.split('-')[0]\<close>: the characters before the first \<open>-\<close> (the whole
  string when it has none).\<close>

definition split_dash_0 :: "string \<Rightarrow> string" where
  "split_dash_0 s = takeWhile (\<lambda>c. c \<noteq> CHR ''-'') s"

text \<open>The PoseNet case: one fixed configuration.\<close>

definition posenet_config :: config where
  "posenet_config =
     [(''quantBytes'', JNum 4),
      (''architecture'', JStr ''MobileNetV1''),
      (''outputStride'', JNum 16),
      (''inputResolution'', JObj [(''width'', JNum 500), (''height'', JNum 500)]),
      (''multiplier'', JNum 0.75)]"

text \<open>
  The BlazePose case. \<open>Some cfg\<close> is the configuration of the \<open>return\<close> reached;
  \<open>None\<close> means that neither \<open>if\<close> returned, and control leaves the case without a
  \<open>break\<close>. The argument \<open>ver\<close> is \<open>mpPose.VERSION\<close> of the MediaPipe library.
\<close>

definition blazePose_case :: "string \<Rightarrow> app_state \<Rightarrow> config option" where
  "blazePose_case ver st =
     (let runtime = split_dash_0 (backend st) in
      if runtime = ''mediapipe'' then
        Some [(''runtime'', JStr runtime),
              (''modelType'', cfg_type (modelConfig st)),
              (''solutionPath'', JStr (''https://cdn.jsdelivr.net/npm/@mediapipe/pose@'' @ ver))]
      else if runtime = ''tfjs'' then
        Some [(''runtime'', JStr runtime),
              (''modelType'', cfg_type (modelConfig st))]
      else None)"

text \<open>
  The MoveNet case. \<open>==\<close> against a string literal that is not numeric holds only for
  that string; \<open>let modelType\<close> stays \<open>undefined\<close> when no branch assigns it, and
  \<open>{ modelType }\<close> carries the property in any case.
\<close>

definition movenet_modelType_of :: "jsval \<Rightarrow> jsval" where
  "movenet_modelType_of t =
     (if t = JStr ''lightning'' then JModelType SINGLEPOSE_LIGHTNING
      else if t = JStr ''thunder'' then JModelType SINGLEPOSE_THUNDER
      else if t = JStr ''multipose'' then JModelType MULTIPOSE_LIGHTNING
      else JUndefined)"

definition moveNet_case :: "app_state \<Rightarrow> config" where
  "moveNet_case st =
     [(''modelType'', movenet_modelType_of (cfg_type (modelConfig st)))]
     @ (if customModel (modelConfig st) \<noteq> JStr ''''
        then [(''modelUrl'', customModel (modelConfig st))] else [])
     @ (if cfg_type (modelConfig st) = JStr ''multipose''
        then [(''enableTracking'', enableTracking (modelConfig st))] else [])"

text \<open>
  The arguments of the one call \<open>posedetection.createDetector(STATE.model, config)\<close> that
  \<open>createDetector\<close> makes. The \<open>switch\<close> runs the cases in the order PoseNet, BlazePose,
  MoveNet; a BlazePose case that did not return continues into the MoveNet case.
\<close>

definition createDetector_call :: "string \<Rightarrow> app_state \<Rightarrow> SupportedModels \<times> config" where
  "createDetector_call ver st =
     (case model st of
        PoseNet \<Rightarrow> (model st, posenet_config)
      | BlazePose \<Rightarrow>
          (case blazePose_case ver st of
             Some cfg \<Rightarrow> (model st, cfg)
           | None \<Rightarrow> (model st, moveNet_case st))
      | MoveNet \<Rightarrow> (model st, moveNet_case st))"

text \<open>The property names of an object literal.\<close>

definition keys :: "config \<Rightarrow> string list" where
  "keys cfg = map fst cfg"

section \<open>Double-precision arithmetic\<close>

text \<open>
  The result of an arithmetic operation of the program is the exact result rounded to the
  nearest double, ties to the even significand: a significand of 53 bits, with the unit in
  the last place \<open>2 ^ (e - 52)\<close> for a value between \<open>2 ^ e\<close> and \<open>2 ^ (e + 1)\<close>, and
  \<open>2 ^ (- 1074)\<close> below \<open>2 ^ (- 1022)\<close>.
\<close>

definition round_half_even :: "real \<Rightarrow> int" where
  "round_half_even x =
     (let n = \<lfloor>x\<rfloor>; d = x - of_int n
      in if d < 1/2 then n else if 1/2 < d then n + 1 else if even n then n else n + 1)"

definition ulp_exponent :: "real \<Rightarrow> int" where
  "ulp_exponent v = max \<lfloor>log 2 \<bar>v\<bar>\<rfloor> (- 1022) - 52"

definition to_double :: "real \<Rightarrow> real" where
  "to_double v =
     (if v = 0 then 0
      else of_int (round_half_even (v / 2 powr of_int (ulp_exponent v)))
             * 2 powr of_int (ulp_exponent v))"

text \<open>A real is a double when rounding leaves it as it is and it is below \<open>2 ^ 1024\<close>.\<close>

definition is_double :: "real \<Rightarrow> bool" where
  "is_double v = (to_double v = v \<and> \<bar>v\<bar> < 2 ^ 1024)"

text \<open>The operators \<open>+\<close>, \<open>-\<close> and \<open>*\<close> of the program.\<close>

definition dadd :: "real \<Rightarrow> real \<Rightarrow> real" where
  "dadd a b = to_double (a + b)"

definition dsub :: "real \<Rightarrow> real \<Rightarrow> real" where
  "dsub a b = to_double (a - b)"

definition dmul :: "real \<Rightarrow> real \<Rightarrow> real" where
  "dmul a b = to_double (a * b)"

section \<open>Poses and the horizontal flip\<close>

text \<open>A keypoint of a pose: coordinates and an optional confidence score
  (\<open>None\<close> when the property is \<open>null\<close> or missing).\<close>

record keypoint =
  kp_x :: real
  kp_y :: real
  kp_score :: "real option"

record pose =
  keypoints :: "keypoint list"

record size2 =
  width :: real
  height :: real

definition imageSize :: size2 where
  "imageSize = \<lparr>width = 1280, height = 720\<rparr>"

text \<open>
  \<open>flipPosesHorizontal\<close> assigns \<open>kp.x = imageSize.width - 1 - kp.x\<close> to every keypoint
  of every pose, in place, and returns the same array; the model returns the array after
  the assignments. The two subtractions are done from left to right, each rounded.
\<close>

definition flip_kp :: "size2 \<Rightarrow> keypoint \<Rightarrow> keypoint" where
  "flip_kp sz kp = kp\<lparr>kp_x := dsub (dsub (width sz) 1) (kp_x kp)\<rparr>"

definition flipPosesHorizontal :: "pose list \<Rightarrow> size2 \<Rightarrow> pose list" where
  "flipPosesHorizontal ps sz =
     map (\<lambda>p. p\<lparr>keypoints := map (flip_kp sz) (keypoints p)\<rparr>) ps"

section \<open>The physics scene\<close>

text \<open>
  A body of the physics engine, with the properties the program sets: its shape and
  position, whether it is static, the number of attractor functions of its plugin, its
  sprite texture, its mass and its visibility. Friction, chamfer, sprite scale and colours
  are passed to the engine unchanged and are not modelled.
\<close>

datatype shape = Circle real | Rectangle real real

record body =
  shape :: shape
  pos_x :: real
  pos_y :: real
  isStatic :: bool
  attractors :: nat
  texture :: "string option"
  mass :: "real option"
  visible :: bool

definition Bodies_circle :: "real \<Rightarrow> real \<Rightarrow> real \<Rightarrow> bool \<Rightarrow> nat \<Rightarrow> body" where
  "Bodies_circle cx cy r static n =
     \<lparr>shape = Circle r, pos_x = cx, pos_y = cy, isStatic = static, attractors = n,
      texture = None, mass = None, visible = True\<rparr>"

definition Bodies_rectangle ::
  "real \<Rightarrow> real \<Rightarrow> real \<Rightarrow> real \<Rightarrow> bool \<Rightarrow> real option \<Rightarrow> string option \<Rightarrow> body" where
  "Bodies_rectangle cx cy w h static ms tex =
     \<lparr>shape = Rectangle w h, pos_x = cx, pos_y = cy, isStatic = static, attractors = 0,
      texture = tex, mass = ms, visible = True\<rparr>"

text \<open>A constraint between two bodies, given by their references.\<close>

record constraint =
  bodyA :: nat
  bodyB :: nat
  len :: real
  stiffness :: real

definition Constraint_create :: "nat \<Rightarrow> nat \<Rightarrow> real \<Rightarrow> constraint" where
  "Constraint_create a b l = \<lparr>bodyA = a, bodyB = b, len = l, stiffness = 0.2\<rparr>"

text \<open>
  The record \<open>runMatter\<close> returns, with the engine's world and the closure variables of
  the gravity timer. Bodies are objects: \<open>heap\<close> holds every body created, in the order
  of creation, and a reference to a body is its index there. \<open>attractiveBody\<close> is
  \<open>None\<close> when the variable is \<open>undefined\<close>. \<open>intervalID\<close> is \<open>Some d\<close> when the timer
  calling \<open>setGravity\<close> every \<open>d\<close> milliseconds is registered.
\<close>

record matter =
  choice :: int
  attractiveBody :: "nat option"
  heap :: "body list"
  world_bodies :: "nat list"
  world_constraints :: "constraint list"
  gravity_x :: real
  gravity_y :: real
  gravity_scale :: real
  intervalID :: "nat option"
  intervalNumber :: int

definition dimensions :: size2 where
  "dimensions = \<lparr>width = 3072, height = 1728\<rparr>"

definition assets :: string where
  "assets = ''https://maria-studiodialect.github.io/hosted-assets/''"

definition sprite :: "string \<Rightarrow> string option" where
  "sprite f = Some (assets @ f)"

text \<open>The radius of both attractor circles.\<close>

definition attractor_radius :: real where
  "attractor_radius = (max (width dimensions / 10) (height dimensions / 10)) / 2"

text \<open>
  Scene 1: the bodies in the order the \<open>Bodies.circle\<close> and \<open>Bodies.rectangle\<close> calls
  create them. The renderer is created with the width and height of \<open>dimensions\<close>.
\<close>

definition scene1_heap :: "body list" where
  "scene1_heap =
   [ Bodies_circle (width dimensions / 2) (height dimensions / 2) attractor_radius True 1,
       \<comment> \<open>0: attractiveBody\<close>
     Bodies_rectangle 600 500 (237*2) (80*2) False (Some 0.1) (sprite ''01.png''),   \<comment> \<open>1: illustration\<close>
     Bodies_rectangle 35 460 (288*2) (75*2) False (Some 0.1) (sprite ''02.png''),    \<comment> \<open>2: art\<close>
     Bodies_rectangle 90 460 (307*2) (59*2) False (Some 0.1) (sprite ''03.png''),    \<comment> \<open>3: threeD\<close>
     Bodies_rectangle 60 420 (223*2) (60*2) False (Some 0.1) (sprite ''04.png''),    \<comment> \<open>4: graphic\<close>
     Bodies_rectangle 50 380 (174*2) (62*2) False (Some 0.1) (sprite ''05.png''),    \<comment> \<open>5: photo\<close>
     Bodies_rectangle 220 540 (238*2) (59*2) False (Some 0.1) (sprite ''06.png''),   \<comment> \<open>6: documentary\<close>
     Bodies_rectangle 200 490 (200*2) (70*2) False (Some 0.1) (sprite ''07.png''),   \<comment> \<open>7: animation\<close>
     Bodies_rectangle 190 440 (208*2) (71*2) False (Some 0.1) (sprite ''08.png''),   \<comment> \<open>8: play\<close>
     Bodies_rectangle 190 440 (249*2) (62*2) False (Some 0.1) (sprite ''09.png''),   \<comment> \<open>9: climb\<close>
     Bodies_rectangle (100*3.5) 950 (61*2.5) (93*2.5) False (Some 0.8) (sprite ''Dance-d.png''),    \<comment> \<open>10: danceD\<close>
     Bodies_rectangle (191.5*3.5) 950 (62*2.5) (93*2.5) False (Some 0.8) (sprite ''Dance-a.png''),  \<comment> \<open>11: danceA\<close>
     Bodies_rectangle (284.5*3.5) 950 (56*2.5) (93*2.5) False (Some 0.8) (sprite ''Dance-n.png''),  \<comment> \<open>12: danceN\<close>
     Bodies_rectangle (368.5*3.5) 950 (60*2.5) (93*2.5) False (Some 0.8) (sprite ''Dance-c.png''),  \<comment> \<open>13: danceC\<close>
     Bodies_rectangle (458.5*3.5) 950 (60*2.5) (93*2.5) False (Some 0.8) (sprite ''Dance-e.png''),  \<comment> \<open>14: danceE\<close>
     Bodies_rectangle (100*3.5) 200 (61*2.5) (93*2.5) False (Some 0.8) (sprite ''Bend-&.png''),     \<comment> \<open>15: dance2D\<close>
     Bodies_rectangle (191.5*3.5) 200 (62*2.5) (93*2.5) False (Some 0.8) (sprite ''Bend-B.png''),   \<comment> \<open>16: dance2A\<close>
     Bodies_rectangle (284.5*3.5) 200 (56*2.5) (93*2.5) False (Some 0.8) (sprite ''Bend-e.png''),   \<comment> \<open>17: dance2N\<close>
     Bodies_rectangle (368.5*3.5) 200 (60*2.5) (93*2.5) False (Some 0.8) (sprite ''Bend-n.png''),   \<comment> \<open>18: dance2C\<close>
     Bodies_rectangle (458.5*3.5) 200 (60*2.5) (93*2.5) False (Some 0.8) (sprite ''Bend-d.png''),   \<comment> \<open>19: dance2E\<close>
     Bodies_rectangle 548.5 650 (67*2.5) (93*2.5) False (Some 0.8) (sprite ''Sprint-&.png''),  \<comment> \<open>20: sprintAnd\<close>
     Bodies_rectangle 649 650 (55*2.5) (93*2.5) False (Some 0.8) (sprite ''Sprint-S.png''),    \<comment> \<open>21: sprintS\<close>
     Bodies_rectangle 731.5 650 (60*2.5) (93*2.5) False (Some 0.8) (sprite ''Sprint-p.png''),  \<comment> \<open>22: sprintP\<close>
     Bodies_rectangle 821.5 650 (36*2.5) (93*2.5) False (Some 0.8) (sprite ''Sprint-r.png''),  \<comment> \<open>23: sprintR\<close>
     Bodies_rectangle 875.5 650 (18*2.5) (93*2.5) False (Some 0.8) (sprite ''Sprint-i.png''),  \<comment> \<open>24: sprintI\<close>
     Bodies_rectangle 902.5 650 (55*2.5) (93*2.5) False (Some 0.8) (sprite ''Sprint-n.png''),  \<comment> \<open>25: sprintN\<close>
     Bodies_rectangle 985 650 (38*2.5) (93*2.5) False (Some 0.8) (sprite ''Sprint-t.png''),    \<comment> \<open>26: sprintT\<close>
     Bodies_rectangle 1042 650 (67*2.5) (93*2.5) False (Some 0.8) (sprite ''Stretch-&.png''),  \<comment> \<open>27: stretchAnd\<close>
     Bodies_rectangle 1142.5 650 (53*2.5) (93*2.5) False (Some 0.8) (sprite ''Stretch-S.png''),  \<comment> \<open>28: stretchS\<close>
     Bodies_rectangle 1222 650 (40*2.5) (93*2.5) False (Some 0.8) (sprite ''Stretch-t.png''),  \<comment> \<open>29: stretchT\<close>
     Bodies_rectangle 1282 650 (32*2.5) (93*2.5) False (Some 0.8) (sprite ''Stretch-r.png''),  \<comment> \<open>30: stretchR\<close>
     Bodies_rectangle 1330 650 (55*2.5) (93*2.5) False (Some 0.8) (sprite ''Stretch-e.png''),  \<comment> \<open>31: stretchE\<close>
     Bodies_rectangle 1412.5 650 (40*2.5) (93*2.5) False (Some 0.8) (sprite ''Stretch-t.png''),  \<comment> \<open>32: stretchT2\<close>
     Bodies_rectangle 1472.5 650 (57*2.5) (93*2.5) False (Some 0.8) (sprite ''Stretch-c.png''),  \<comment> \<open>33: stretchC\<close>
     Bodies_rectangle 1558 650 (57*2.5) (93*2.5) False (Some 0.8) (sprite ''Stretch-h.png''),  \<comment> \<open>34: stretchH\<close>
     Bodies_rectangle (1042*2) 650 (65*2.5) (93*2.5) False (Some 0.8) (sprite ''Jump-&.png''),    \<comment> \<open>35: stretch2And\<close>
     Bodies_rectangle (1142.5*2) 650 (52*2.5) (93*2.5) False (Some 0.8) (sprite ''Jump-J.png''),  \<comment> \<open>36: stretch2S\<close>
     Bodies_rectangle (1222*2) 650 (54*2.5) (93*2.5) False (Some 0.8) (sprite ''Jump-u.png''),    \<comment> \<open>37: stretch2T\<close>
     Bodies_rectangle (1282*2) 650 (85*2.5) (93*2.5) False (Some 0.8) (sprite ''Jump-m.png''),    \<comment> \<open>38: stretch2R\<close>
     Bodies_rectangle (1330*2) 650 (60*2.5) (93*2.5) False (Some 0.8) (sprite ''Jump-p.png'')     \<comment> \<open>39: stretch2E\<close>
   ]"

text \<open>The two \<open>World.add\<close> calls of bodies: first the attractor, then the letters.\<close>

definition scene1_world_bodies :: "nat list" where
  "scene1_world_bodies =
     [0] @
     [10, 11, 12, 13, 14, 15, 16, 17, 18, 19,
      28, 27, 29, 30, 31, 32, 33, 34, 36, 35, 37, 38, 39]"

definition scene1_constraints :: "constraint list" where
  "scene1_constraints =
   [ Constraint_create 10 11 (95*1.5),   \<comment> \<open>cons1\<close>
     Constraint_create 11 12 (95*1.5),   \<comment> \<open>cons2\<close>
     Constraint_create 12 13 (95*1.5),   \<comment> \<open>cons3\<close>
     Constraint_create 13 14 (95*1.5),   \<comment> \<open>cons4\<close>
     Constraint_create 27 28 (95*1.5),   \<comment> \<open>cons5\<close>
     Constraint_create 28 29 (75*1.5),   \<comment> \<open>cons6\<close>
     Constraint_create 29 30 (70*1.4),   \<comment> \<open>cons7\<close>
     Constraint_create 30 31 (70*1.5),   \<comment> \<open>cons8\<close>
     Constraint_create 31 32 (75*1.5),   \<comment> \<open>cons9\<close>
     Constraint_create 32 33 (80*1.5),   \<comment> \<open>cons10\<close>
     Constraint_create 33 34 (95*1.5),   \<comment> \<open>cons11\<close>
     Constraint_create 15 16 (95*1.5),   \<comment> \<open>consD1\<close>
     Constraint_create 16 17 (95*1.5),   \<comment> \<open>consD2\<close>
     Constraint_create 17 18 (95*1.5),   \<comment> \<open>consD3\<close>
     Constraint_create 18 19 (95*1.5),   \<comment> \<open>consD4\<close>
     Constraint_create 35 36 (95*1.5),   \<comment> \<open>consS5\<close>
     Constraint_create 36 37 (90*1.5),   \<comment> \<open>consS6\<close>
     Constraint_create 37 38 (120*1.5),  \<comment> \<open>consS7\<close>
     Constraint_create 38 39 (120*1.5)   \<comment> \<open>consS8\<close>
   ]"

text \<open>\<open>Math.round\<close> rounds to the nearest integer, halves upwards.\<close>

definition Math_round :: "real \<Rightarrow> real" where
  "Math_round v = of_int \<lfloor>v + 1/2\<rfloor>"

definition percentX :: "real \<Rightarrow> real" where
  "percentX percent = Math_round ((percent / 100) * width dimensions)"

definition percentY :: "real \<Rightarrow> real" where
  "percentY percent = Math_round ((percent / 100) * height dimensions)"

text \<open>Scene 2: the bodies in the order of creation; the four walls are made invisible.\<close>

definition scene2_heap :: "body list" where
  "scene2_heap =
   [ Bodies_circle (width dimensions / 2) (height dimensions / 2) attractor_radius True 0,
       \<comment> \<open>0: attractiveBody\<close>
     (Bodies_rectangle (percentX 100 / 2) (percentY 0 - 10) (percentX 100) 20 True None None)
       \<lparr>visible := False\<rparr>,   \<comment> \<open>1: ceiling\<close>
     (Bodies_rectangle (percentX 100 / 2) (percentY 100 + 10) (percentX 100) 20 True None None)
       \<lparr>visible := False\<rparr>,   \<comment> \<open>2: floor\<close>
     (Bodies_rectangle (percentX 100 + 10) (percentY 100 / 2) 20 (percentY 100) True None None)
       \<lparr>visible := False\<rparr>,   \<comment> \<open>3: rightWall\<close>
     (Bodies_rectangle (percentX 0 - 10) (percentY 100 / 2) 20 (percentY 100) True None None)
       \<lparr>visible := False\<rparr>,   \<comment> \<open>4: leftWall\<close>
     Bodies_rectangle 200 0 237 80 False None (sprite ''01.png''),   \<comment> \<open>5: dance\<close>
     Bodies_rectangle 250 0 288 75 False None (sprite ''02.png''),   \<comment> \<open>6: sprint\<close>
     Bodies_rectangle 800 0 307 59 False None (sprite ''03.png''),   \<comment> \<open>7: stretch\<close>
     Bodies_rectangle 600 0 223 60 False None (sprite ''04.png''),   \<comment> \<open>8: push\<close>
     Bodies_rectangle 800 0 174 62 False None (sprite ''05.png''),   \<comment> \<open>9: lift\<close>
     Bodies_rectangle 120 0 238 59 False None (sprite ''06.png''),   \<comment> \<open>10: bend\<close>
     Bodies_rectangle 500 0 200 70 False None (sprite ''07.png''),   \<comment> \<open>11: kick\<close>
     Bodies_rectangle 700 0 208 71 False None (sprite ''08.png''),   \<comment> \<open>12: play\<close>
     Bodies_rectangle 400 0 249 62 False None (sprite ''09.png'')    \<comment> \<open>13: climb\<close>
   ]"

definition scene2_world_bodies :: "nat list" where
  "scene2_world_bodies = [0] @ [1, 2, 3, 4] @ [13, 12, 11, 10, 9, 8, 7, 6, 5]"

text \<open>
  \<open>runMatter\<close>. The arguments \<open>gx0\<close>, \<open>gy0\<close>, \<open>gs0\<close> are the gravity of the engine that
  \<open>Engine.create\<close> of the physics library returns. \<open>var attractiveBody\<close> is declared
  in both cases of the \<open>switch\<close> and is one variable of the function: the returned
  record reads it after the \<open>switch\<close>. In case 2, \<open>changeGravity\<close> registers the
  3000 ms timer (no timer is registered before) and \<open>intervalNumber\<close> starts at 1; in
  the other cases neither variable is declared.
\<close>

definition runMatter :: "real \<Rightarrow> real \<Rightarrow> real \<Rightarrow> int \<Rightarrow> matter" where
  "runMatter gx0 gy0 gs0 c =
     (if c = 1 then
        \<lparr>choice = c, attractiveBody = Some 0, heap = scene1_heap,
         world_bodies = scene1_world_bodies, world_constraints = scene1_constraints,
         gravity_x = 0, gravity_y = 0, gravity_scale = 0,
         intervalID = None, intervalNumber = 0\<rparr>
      else if c = 2 then
        \<lparr>choice = c, attractiveBody = Some 0, heap = scene2_heap,
         world_bodies = scene2_world_bodies, world_constraints = [],
         gravity_x = gx0, gravity_y = gy0, gravity_scale = gs0,
         intervalID = Some 3000, intervalNumber = 1\<rparr>
      else
        \<lparr>choice = c, attractiveBody = None, heap = [],
         world_bodies = [], world_constraints = [],
         gravity_x = gx0, gravity_y = gy0, gravity_scale = gs0,
         intervalID = None, intervalNumber = 0\<rparr>)"

subsection \<open>The gravity timer of scene 2\<close>

definition setGravity :: "matter \<Rightarrow> matter" where
  "setGravity w =
     (if intervalNumber w = 1 then
        w\<lparr>gravity_y := 0.5, gravity_x := 0, intervalNumber := intervalNumber w + 1\<rparr>
      else if intervalNumber w = 2 then
        w\<lparr>gravity_y := - 0.5, gravity_x := 0, intervalNumber := intervalNumber w + 1\<rparr>
      else if intervalNumber w = 3 then
        w\<lparr>gravity_x := 0.5, gravity_y := 0, intervalNumber := intervalNumber w + 1\<rparr>
      else
        w\<lparr>gravity_x := - 0.5, gravity_y := 0, intervalNumber := 1\<rparr>)"

text \<open>The state after the timer has fired \<open>n\<close> times.\<close>

fun ticks :: "nat \<Rightarrow> matter \<Rightarrow> matter" where
  "ticks 0 w = w"
| "ticks (Suc n) w = setGravity (ticks n w)"

text \<open>
  The timer registered with period \<open>d\<close> fires at the times \<open>d\<close>, \<open>2 d\<close>, \<open>3 d\<close>, ...
  (in milliseconds after \<open>runMatter\<close>): the \<open>k\<close>-th firing is at \<open>k * d\<close>.
\<close>

definition fires_in :: "nat \<Rightarrow> nat \<Rightarrow> nat \<Rightarrow> nat \<Rightarrow> bool" where
  "fires_in d k t0 t1 = (1 \<le> k \<and> t0 \<le> k * d \<and> k * d \<le> t1)"

definition gravity :: "matter \<Rightarrow> real \<times> real" where
  "gravity w = (gravity_x w, gravity_y w)"

text \<open>The four directions, as (x, y), in the order down, up, right, left.\<close>

definition directions :: "(real \<times> real) list" where
  "directions = [(0, 0.5), (0, - 0.5), (0.5, 0), (- 0.5, 0)]"

section \<open>The pose-to-physics bridge: \<open>usePoses\<close>\<close>

text \<open>
  \<open>Body.translate\<close> of the physics library moves a body by a vector relative to its
  current position: the new position is the old one plus the vector, rounded.
\<close>

definition Body_translate :: "body \<Rightarrow> real \<times> real \<Rightarrow> body" where
  "Body_translate b v = b\<lparr>pos_x := dadd (pos_x b) (fst v), pos_y := dadd (pos_y b) (snd v)\<rparr>"

text \<open>\<open>pose.score != null ? pose.score : 1\<close>\<close>

definition score_of :: "keypoint \<Rightarrow> real" where
  "score_of kp = (case kp_score kp of Some s \<Rightarrow> s | None \<Rightarrow> 1)"

definition scoreThreshold :: real where
  "scoreThreshold = 0.3"

text \<open>The factor \<open>2.4\<close> of the scaling: the literal denotes the double nearest to it.\<close>

definition keypoint_scale :: real where
  "keypoint_scale = to_double 2.4"

text \<open>
  \<open>usePoses\<close>, on the record \<open>m\<close> that \<open>runMatter\<close> returned. The first component of the
  result is the array of poses after the in-place flip (the caller's array is the same
  object); the second is the scene after the call, or the \<open>TypeError\<close> of reading a
  property of \<open>undefined\<close>: \<open>poses[0]\<close> of an empty array, \<open>keypoints[10]\<close> of a pose
  with at most ten keypoints, or \<open>attractiveBody.position\<close> when there is no body.
\<close>

definition usePoses :: "matter \<Rightarrow> pose list \<Rightarrow> pose list \<times> (js_error + matter)" where
  "usePoses m ps =
     (let flipped = flipPosesHorizontal ps imageSize in
      (flipped,
       case flipped of
         [] \<Rightarrow> Inl TypeError
       | p0 # _ \<Rightarrow>
           if length (keypoints p0) \<le> 10 then Inl TypeError
           else
             let kp = keypoints p0 ! 10;
                 score = score_of kp
             in if score \<ge> scoreThreshold then
                  (case attractiveBody m of
                     None \<Rightarrow> Inl TypeError
                   | Some r \<Rightarrow>
                       if r < length (heap m) then
                         let b = heap m ! r in
                         Inr (m\<lparr>heap := (heap m)
                                [r := Body_translate b
                                        (dsub (dmul (kp_x kp) keypoint_scale) (pos_x b),
                                         dsub (dmul (kp_y kp) keypoint_scale) (pos_y b))]\<rparr>)
                       else Inl TypeError)
                else Inr m))"


section \<open>The render loop\<close>

text \<open>
  The calls the loop makes to its collaborators, in order. A detector is a handle
  (a number); \<open>Dispose d\<close> is \<open>detector.dispose()\<close>.
\<close>

datatype event =
    SetupCamera
  | CancelAnimationFrame
  | Dispose nat
  | SetBackendAndEnvFlags config string
  | CreateDetector SupportedModels config
  | Alert js_error
  | EstimatePoses nat jsval
  | DrawCtx
  | DrawResults "pose list"
  | UsePoses "pose list"
  | RequestAnimationFrame

text \<open>
  What the collaborators answer during one frame: \<open>None\<close> of an awaited call means that
  it returns, \<open>Some e\<close> that it throws \<open>e\<close>; the library's \<open>createDetector\<close> and the
  detector's \<open>estimatePoses\<close> return a value or throw.
\<close>

record env =
  mpPose_VERSION :: string
  setupCamera_throws :: "js_error option"
  setBackendAndEnvFlags_throws :: "js_error option"
  posedetection_createDetector :: "SupportedModels \<Rightarrow> config \<Rightarrow> js_error + nat"
  estimatePoses :: "nat \<Rightarrow> js_error + pose list"

text \<open>
  The module's variables: \<open>STATE\<close>, \<open>detector\<close> (\<open>None\<close> for \<open>null\<close> and
  \<open>undefined\<close>), \<open>poses\<close> (\<open>None\<close> until the first assignment), the scene \<open>m\<close>, and the
  calls made so far.
\<close>

record loop_state =
  STATE :: app_state
  detector :: "nat option"
  poses :: "pose list option"
  m_scene :: matter
  trace :: "event list"

definition emit :: "event list \<Rightarrow> loop_state \<Rightarrow> loop_state" where
  "emit evs s = s\<lparr>trace := trace s @ evs\<rparr>"

text \<open>The first \<open>if\<close> of \<open>checkGuiUpdate\<close>: the camera is set up again.\<close>

definition replace_camera :: "env \<Rightarrow> loop_state \<Rightarrow> js_error + loop_state" where
  "replace_camera e s =
     (if isTargetFPSChanged (STATE s) \<or> isSizeOptionChanged (STATE s) then
        (case setupCamera_throws e of
           Some err \<Rightarrow> Inl err
         | None \<Rightarrow>
             Inr (emit [SetupCamera]
                   (s\<lparr>STATE := (STATE s)\<lparr>isTargetFPSChanged := False,
                                          isSizeOptionChanged := False\<rparr>\<rparr>)))
      else Inr s)"

text \<open>\<open>try { detector = await createDetector(STATE.model); } catch (error) { detector = null;
  alert(error); }\<close>\<close>

definition try_createDetector :: "env \<Rightarrow> loop_state \<Rightarrow> loop_state" where
  "try_createDetector e s =
     (case createDetector_call (mpPose_VERSION e) (STATE s) of
        (mdl, cfg) \<Rightarrow>
          (case posedetection_createDetector e mdl cfg of
             Inr d \<Rightarrow> emit [CreateDetector mdl cfg] (s\<lparr>detector := Some d\<rparr>)
           | Inl err \<Rightarrow> emit [CreateDetector mdl cfg, Alert err] (s\<lparr>detector := None\<rparr>)))"

text \<open>The second \<open>if\<close> of \<open>checkGuiUpdate\<close>: the detector is replaced.\<close>

definition replace_detector :: "env \<Rightarrow> loop_state \<Rightarrow> js_error + loop_state" where
  "replace_detector e s =
     (if isModelChanged (STATE s) \<or> isFlagChanged (STATE s) \<or> isBackendChanged (STATE s) then
        let s1 = s\<lparr>STATE := (STATE s)\<lparr>isModelChanged := True\<rparr>\<rparr>;
            s2 = emit [CancelAnimationFrame] s1;
            s3 = (case detector s2 of Some d \<Rightarrow> emit [Dispose d] s2 | None \<Rightarrow> s2)
        in
        case (if isFlagChanged (STATE s3) \<or> isBackendChanged (STATE s3) then
                (case setBackendAndEnvFlags_throws e of
                   Some err \<Rightarrow> Inl err
                 | None \<Rightarrow>
                     Inr (emit [SetBackendAndEnvFlags (flags (STATE s3)) (backend (STATE s3))] s3))
              else Inr s3) of
          Inl err \<Rightarrow> Inl err
        | Inr s4 \<Rightarrow>
            let s5 = try_createDetector e s4 in
            Inr (s5\<lparr>STATE := (STATE s5)\<lparr>isFlagChanged := False,
                                          isBackendChanged := False,
                                          isModelChanged := False\<rparr>\<rparr>)
      else Inr s)"

definition checkGuiUpdate :: "env \<Rightarrow> loop_state \<Rightarrow> js_error + loop_state" where
  "checkGuiUpdate e s =
     (case replace_camera e s of
        Inl err \<Rightarrow> Inl err
      | Inr s1 \<Rightarrow> replace_detector e s1)"

text \<open>
  The estimation step of \<open>renderResult\<close>, taken when the detector is not \<open>null\<close>. When
  \<open>estimatePoses\<close> throws, the assignment to \<open>poses\<close> does not happen: the variable keeps
  its value. The inference-time statistics are not modelled.
\<close>

definition estimate_step :: "env \<Rightarrow> loop_state \<Rightarrow> loop_state" where
  "estimate_step e s =
     (case detector s of
        None \<Rightarrow> s
      | Some d \<Rightarrow>
          (case estimatePoses e d of
             Inr ps \<Rightarrow> emit [EstimatePoses d (maxPoses (modelConfig (STATE s)))] (s\<lparr>poses := Some ps\<rparr>)
           | Inl err \<Rightarrow>
               emit [EstimatePoses d (maxPoses (modelConfig (STATE s))), Dispose d, Alert err]
                 (s\<lparr>detector := None\<rparr>)))"

text \<open>\<open>poses && poses.length > 0 && !STATE.isModelChanged\<close>\<close>

definition should_draw :: "loop_state \<Rightarrow> bool" where
  "should_draw s =
     ((case poses s of None \<Rightarrow> False | Some ps \<Rightarrow> ps \<noteq> []) \<and> \<not> isModelChanged (STATE s))"

text \<open>
  \<open>renderResult\<close>, once the video has data. \<open>usePoses\<close> flips the array that \<open>poses\<close>
  refers to, so the variable holds the flipped poses afterwards; a \<open>TypeError\<close> of
  \<open>usePoses\<close> is not caught.
\<close>

definition renderResult :: "env \<Rightarrow> loop_state \<Rightarrow> js_error + loop_state" where
  "renderResult e s =
     (let s1 = estimate_step e s;
          s2 = emit [DrawCtx] s1
      in if should_draw s2 then
           (case poses s2 of
              None \<Rightarrow> Inr s2
            | Some ps \<Rightarrow>
                let s3 = emit [DrawResults ps, UsePoses ps] s2 in
                (case usePoses (m_scene s3) ps of
                   (ps', Inl err) \<Rightarrow> Inl err
                 | (ps', Inr m') \<Rightarrow> Inr (s3\<lparr>poses := Some ps', m_scene := m'\<rparr>)))
         else Inr s2)"

text \<open>One frame: \<open>renderPrediction\<close>.\<close>

definition renderPrediction :: "env \<Rightarrow> loop_state \<Rightarrow> js_error + loop_state" where
  "renderPrediction e s =
     (case checkGuiUpdate e s of
        Inl err \<Rightarrow> Inl err
      | Inr s1 \<Rightarrow>
          (case (if \<not> isModelChanged (STATE s1) then renderResult e s1 else Inr s1) of
             Inl err \<Rightarrow> Inl err
           | Inr s2 \<Rightarrow> Inr (emit [RequestAnimationFrame] s2)))"

text \<open>Successive frames, each with the answers of its collaborators.\<close>

fun frames :: "env list \<Rightarrow> loop_state \<Rightarrow> js_error + loop_state" where
  "frames [] s = Inr s"
| "frames (e # es) s =
     (case renderPrediction e s of
        Inl err \<Rightarrow> Inl err
      | Inr s1 \<Rightarrow> frames es s1)"

section \<open>Concrete states\<close>

text \<open>The MoveNet defaults, a pose of seventeen keypoints, and collaborators that
  succeed or fail.\<close>

definition movenet_STATE :: app_state where
  "movenet_STATE =
     \<lparr>model = MoveNet, backend = ''tfjs-webgl'', flags = [],
      modelConfig = \<lparr>cfg_type = JStr ''lightning'', customModel = JStr [],
                     enableTracking = JUndefined, maxPoses = JNum 1\<rparr>,
      isModelChanged = False, isFlagChanged = False, isBackendChanged = False,
      isTargetFPSChanged = False, isSizeOptionChanged = False\<rparr>"

definition wrist_pose :: "real \<Rightarrow> real \<Rightarrow> real option \<Rightarrow> pose" where
  "wrist_pose px py sc =
     \<lparr>keypoints = replicate 17 \<lparr>kp_x = px, kp_y = py, kp_score = sc\<rparr>\<rparr>"

text \<open>The coordinate \<open>0.1\<close>: the double nearest to one tenth.\<close>

definition tenth :: real where
  "tenth = to_double 0.1"

definition good_env :: env where
  "good_env =
     \<lparr>mpPose_VERSION = ''0.5'',
      setupCamera_throws = None,
      setBackendAndEnvFlags_throws = None,
      posedetection_createDetector = (\<lambda>mdl cfg. Inr 7),
      estimatePoses = (\<lambda>d. Inr [wrist_pose 100 50 (Some 0.9)])\<rparr>"

definition failing_env :: env where
  "failing_env =
     good_env\<lparr>posedetection_createDetector := (\<lambda>mdl cfg. Inl (Thrown ''load failed'')),
              estimatePoses := (\<lambda>d. Inl (Thrown ''bad model output''))\<rparr>"

definition running_state :: loop_state where
  "running_state =
     \<lparr>STATE = movenet_STATE, detector = Some 3,
      poses = Some [wrist_pose 100 50 (Some 0.9)],
      m_scene = runMatter 0 1 0.001 1, trace = []\<rparr>"

text \<open>BlazePose selected with the \<open>wasm\<close> backend and a custom model URL.\<close>

definition wasm_blazepose :: app_state where
  "wasm_blazepose =
     movenet_STATE\<lparr>model := BlazePose, backend := ''wasm'',
       modelConfig := \<lparr>cfg_type = JStr ''full'', customModel = JStr ''u'',
                       enableTracking = JUndefined, maxPoses = JNum 1\<rparr>\<rparr>"

text \<open>The running state after the GUI changed the backend.\<close>

definition backend_changed_state :: loop_state where
  "backend_changed_state =
     running_state\<lparr>STATE := movenet_STATE\<lparr>isBackendChanged := True\<rparr>\<rparr>"

section \<open>Properties of the detector factory\<close>

text \<open>
  C8. With model BlazePose and backend \<open>tfjs-webgl\<close>, the runtime extracted is \<open>tfjs\<close>
  (the prefix before the first \<open>-\<close>), and the configuration passed to the library has
  exactly the properties \<open>runtime\<close> and \<open>modelType\<close>: no \<open>solutionPath\<close>.
\<close>

theorem blazepose_tfjs_config:
  assumes "model st = BlazePose" and "backend st = ''tfjs-webgl''"
  shows "split_dash_0 (backend st) = ''tfjs''
       \<and> createDetector_call ver st =
           (BlazePose, [(''runtime'', JStr ''tfjs''), (''modelType'', cfg_type (modelConfig st))])
       \<and> keys (snd (createDetector_call ver st)) = [''runtime'', ''modelType'']
       \<and> ''solutionPath'' \<notin> set (keys (snd (createDetector_call ver st)))"
  using assms
  by (simp add: createDetector_call_def blazePose_case_def split_dash_0_def keys_def)

theorem blazepose_tfjs_config_witness:
  "model (movenet_STATE\<lparr>model := BlazePose\<rparr>) = BlazePose
   \<and> backend (movenet_STATE\<lparr>model := BlazePose\<rparr>) = ''tfjs-webgl''
   \<and> createDetector_call ''0.5'' (movenet_STATE\<lparr>model := BlazePose\<rparr>) =
       (BlazePose, [(''runtime'', JStr ''tfjs''), (''modelType'', JStr ''lightning'')])"
  using blazepose_tfjs_config [of "movenet_STATE\<lparr>model := BlazePose\<rparr>" "''0.5''"]
  by (simp add: movenet_STATE_def)

text \<open>
  C9. With model MoveNet, type \<open>lightning\<close> and the custom-model field the empty string,
  the configuration passed to the library is exactly \<open>{ modelType: SINGLEPOSE_LIGHTNING }\<close>:
  it has no \<open>modelUrl\<close> and no \<open>enableTracking\<close>.
\<close>

theorem movenet_lightning_config:
  assumes "model st = MoveNet"
    and "cfg_type (modelConfig st) = JStr ''lightning''"
    and "customModel (modelConfig st) = JStr []"
  shows "createDetector_call ver st = (MoveNet, [(''modelType'', JModelType SINGLEPOSE_LIGHTNING)])
       \<and> ''modelUrl'' \<notin> set (keys (snd (createDetector_call ver st)))
       \<and> ''enableTracking'' \<notin> set (keys (snd (createDetector_call ver st)))"
  using assms
  by (simp add: createDetector_call_def moveNet_case_def movenet_modelType_of_def keys_def)

theorem movenet_lightning_config_witness:
  "model movenet_STATE = MoveNet
   \<and> cfg_type (modelConfig movenet_STATE) = JStr ''lightning''
   \<and> customModel (modelConfig movenet_STATE) = JStr []
   \<and> createDetector_call ''0.5'' movenet_STATE =
       (MoveNet, [(''modelType'', JModelType SINGLEPOSE_LIGHTNING)])"
  using movenet_lightning_config [of movenet_STATE "''0.5''"]
  by (simp add: movenet_STATE_def)

text \<open>
  C10. With model BlazePose and a backend whose prefix before the first \<open>-\<close> is neither
  \<open>mediapipe\<close> nor \<open>tfjs\<close>, the BlazePose case does not return: the detector is requested
  for the BlazePose model with the configuration of the MoveNet case, which has
  \<open>modelType\<close> (\<open>undefined\<close> when the type is none of the three MoveNet types), the custom
  URL when the custom-model field is not empty, and the tracking flag for \<open>multipose\<close>.
\<close>

theorem blazepose_falls_through:
  assumes "model st = BlazePose"
    and "split_dash_0 (backend st) \<noteq> ''mediapipe''"
    and "split_dash_0 (backend st) \<noteq> ''tfjs''"
  shows "blazePose_case ver st = None
       \<and> createDetector_call ver st = (BlazePose, moveNet_case st)
       \<and> snd (createDetector_call ver st) = snd (createDetector_call ver (st\<lparr>model := MoveNet\<rparr>))
       \<and> snd (createDetector_call ver st) =
           [(''modelType'', movenet_modelType_of (cfg_type (modelConfig st)))]
           @ (if customModel (modelConfig st) \<noteq> JStr []
              then [(''modelUrl'', customModel (modelConfig st))] else [])
           @ (if cfg_type (modelConfig st) = JStr ''multipose''
              then [(''enableTracking'', enableTracking (modelConfig st))] else [])
       \<and> (cfg_type (modelConfig st) \<notin> {JStr ''lightning'', JStr ''thunder'', JStr ''multipose''}
            \<longrightarrow> hd (snd (createDetector_call ver st)) = (''modelType'', JUndefined))"
  using assms
  by (simp add: createDetector_call_def blazePose_case_def moveNet_case_def
      movenet_modelType_of_def)

theorem blazepose_falls_through_witness:
  "model wasm_blazepose = BlazePose
   \<and> split_dash_0 (backend wasm_blazepose) \<noteq> ''mediapipe''
   \<and> split_dash_0 (backend wasm_blazepose) \<noteq> ''tfjs''
   \<and> cfg_type (modelConfig wasm_blazepose)
        \<notin> {JStr ''lightning'', JStr ''thunder'', JStr ''multipose''}
   \<and> createDetector_call ''0.5'' wasm_blazepose =
       (BlazePose, [(''modelType'', JUndefined), (''modelUrl'', JStr ''u'')])"
  using blazepose_falls_through [of wasm_blazepose "''0.5''"]
  by (simp add: wasm_blazepose_def movenet_STATE_def split_dash_0_def moveNet_case_def
      movenet_modelType_of_def)

section \<open>Properties of the rounding\<close>

lemma round_half_even_of_int [simp]: "round_half_even (of_int n) = n"
  by (simp add: round_half_even_def)






lemma exponent_eq:
  assumes "2 powr of_int e \<le> \<bar>v\<bar>" and "\<bar>v\<bar> < 2 powr of_int (e + 1)"
  shows "\<lfloor>log 2 \<bar>v\<bar>\<rfloor> = e"
proof -
  have "(0::real) < 2 powr of_int e" by simp
  then have "0 < \<bar>v\<bar>" using assms(1) by linarith
  then show ?thesis using assms floor_log_eq_powr_iff [of "\<bar>v\<bar>" 2 e] by simp
qed



text \<open>
  Rounding a value given with its scaled significand: when \<open>v * 2 ^ k\<close> lies between
  \<open>2 ^ 52\<close> and \<open>2 ^ 53\<close> in absolute value, the double is that number rounded to an
  integer, over \<open>2 ^ k\<close>.
\<close>

lemma to_double_eval:
  fixes k :: nat
  assumes "v * 2 ^ k = r" and "2 ^ 52 \<le> \<bar>r\<bar>" and "\<bar>r\<bar> < 2 ^ 53" and "k \<le> 1074"
  shows "to_double v = of_int (round_half_even r) / 2 ^ k"
proof -
  have v: "v = r / 2 ^ k" using assms(1) by (simp add: field_simps)
  have p: "2 powr of_int (52 - int k) = (2::real) ^ 52 / 2 ^ k"
    by (simp add: powr_diff powr_realpow)
  have p1: "2 powr of_int (52 - int k + 1) = (2::real) ^ 53 / 2 ^ k"
    by (simp add: powr_diff powr_add powr_realpow)
  have a: "\<bar>v\<bar> = \<bar>r\<bar> / 2 ^ k" by (simp add: v)
  have lo: "2 powr of_int (52 - int k) \<le> \<bar>v\<bar>"
    unfolding p a using assms(2) by (simp add: divide_right_mono)
  have hi: "\<bar>v\<bar> < 2 powr of_int (52 - int k + 1)"
    unfolding p1 a using assms(3) by (simp add: divide_strict_right_mono)
  have e: "\<lfloor>log 2 \<bar>v\<bar>\<rfloor> = 52 - int k" using lo hi by (rule exponent_eq)
  have u: "ulp_exponent v = - int k"
    using assms(4) by (simp add: ulp_exponent_def e)
  have pw: "2 powr of_int (- int k) = 1 / (2::real) ^ k"
    by (simp add: powr_minus powr_realpow inverse_eq_divide)
  have "v \<noteq> 0" using assms(2) v by auto
  then have "to_double v = of_int (round_half_even (v / (1 / 2 ^ k))) * (1 / 2 ^ k)"
    by (simp only: to_double_def u pw if_False)
  also have "v / (1 / 2 ^ k) = r" using assms(1) by simp
  finally show ?thesis by simp
qed


subsection \<open>The doubles of the examples\<close>

lemma double_1279: "dsub 1280 1 = 1279"
  using to_double_eval [of "1280 - 1" 42 "1279 * 2 ^ 42"]
  by (simp add: dsub_def round_half_even_def)

lemma double_100: "is_double 100"
  using to_double_eval [of 100 46 "100 * 2 ^ 46"]
  by (simp add: is_double_def round_half_even_def)

lemma flipped_100: "dsub (dsub 1280 1) 100 = 1179"
proof -
  have "dsub (dsub 1280 1) 100 = dsub 1279 100" by (simp only: double_1279)
  also have "\<dots> = to_double (1279 - 100)" by (simp only: dsub_def)
  also have "\<dots> = 1179"
    using to_double_eval [of "1279 - 100" 42 "1179 * 2 ^ 42"]
    by (simp add: round_half_even_def)
  finally show ?thesis .
qed

lemma flipped_100_exact: "is_double (dsub 1280 1 - 100)"
proof -
  have "to_double 1179 = 1179"
    using to_double_eval [of 1179 42 "1179 * 2 ^ 42"] by (simp add: round_half_even_def)
  then show ?thesis by (simp add: double_1279 is_double_def)
qed


lemma tenth_value: "tenth = 3602879701896397 / 2 ^ 55"
  using to_double_eval [of "0.1" 56 "36028797018963968 / 5"]
  by (simp add: tenth_def round_half_even_def)

text \<open>\<open>1279 - 0.1\<close> and \<open>1279 - (1279 - 0.1)\<close>: the second is \<open>0.09999999999990905\<close>.\<close>

lemma flipped_tenth: "dsub (dsub 1280 1) tenth = 2812330841525453 / 2 ^ 41"
proof -
  have "dsub (dsub 1280 1) tenth = dsub 1279 (3602879701896397 / 2 ^ 55)"
    by (simp only: double_1279 tenth_value)
  also have "\<dots> = to_double (1279 - 3602879701896397 / 2 ^ 55)" by (simp only: dsub_def)
  also have "\<dots> = 2812330841525453 / 2 ^ 41"
    using to_double_eval [of "1279 - 3602879701896397 / 2 ^ 55" 42
        "46077228507553018675 / 8192"]
    by (simp add: round_half_even_def)
  finally show ?thesis .
qed

lemma flipped_twice_tenth:
  "dsub (dsub 1280 1) (dsub (dsub 1280 1) tenth) = 219902325555 / 2 ^ 41"
proof -
  have "dsub (dsub 1280 1) (dsub (dsub 1280 1) tenth)
      = dsub (dsub 1280 1) (2812330841525453 / 2 ^ 41)"
    by (simp only: flipped_tenth)
  also have "\<dots> = dsub 1279 (2812330841525453 / 2 ^ 41)" by (simp only: double_1279)
  also have "\<dots> = to_double (1279 - 2812330841525453 / 2 ^ 41)" by (simp only: dsub_def)
  also have "\<dots> = 219902325555 / 2 ^ 41"
    using to_double_eval [of "1279 - 2812330841525453 / 2 ^ 41" 56 "7205759403786240"]
    by (simp add: round_half_even_def)
  finally show ?thesis .
qed

lemma flipped_twice_tenth_differs:
  "dsub (dsub 1280 1) (dsub (dsub 1280 1) tenth) \<noteq> tenth"
proof -
  have "(219902325555 / 2 ^ 41 :: real) \<noteq> 3602879701896397 / 2 ^ 55" by simp
  then have "dsub (dsub 1280 1) (dsub (dsub 1280 1) tenth) \<noteq> 3602879701896397 / 2 ^ 55"
    by (simp only: flipped_twice_tenth not_False_eq_True)
  then show ?thesis by (simp only: tenth_value not_False_eq_True)
qed








section \<open>Properties of the bridge\<close>

text \<open>
  C6, as the claim states it: flipping twice with the same frame width would return every
  keypoint to its original coordinates. It does not for the keypoint at \<open>x = 0.1\<close> and
  the frame width 1280: the first flip rounds \<open>1279 - 0.1\<close>, and the second gives
  \<open>0.09999999999990905\<close>.
\<close>

theorem flip_twice_changes_tenth:
  "flipPosesHorizontal
     (flipPosesHorizontal [wrist_pose tenth 50 None] imageSize) imageSize
   \<noteq> [wrist_pose tenth 50 None]"
  using flipped_twice_tenth_differs
  by (simp add: flipPosesHorizontal_def flip_kp_def wrist_pose_def imageSize_def)

text \<open>
  C6, as the code has it. For every list of poses and every frame size, flipping twice
  keeps the poses, the keypoints of each, and every \<open>y\<close> and score; and when, for every
  keypoint, \<open>x\<close> is a double and the subtraction of the first flip is exact (its exact
  result is a double), flipping twice gives back the poses.
\<close>

theorem flip_twice_exact:
  "map (map kp_y \<circ> keypoints) (flipPosesHorizontal (flipPosesHorizontal ps sz) sz)
     = map (map kp_y \<circ> keypoints) ps
   \<and> map (map kp_score \<circ> keypoints) (flipPosesHorizontal (flipPosesHorizontal ps sz) sz)
     = map (map kp_score \<circ> keypoints) ps
   \<and> ((\<forall>p \<in> set ps. \<forall>kp \<in> set (keypoints p).
          is_double (kp_x kp) \<and> is_double (dsub (width sz) 1 - kp_x kp))
        \<longrightarrow> flipPosesHorizontal (flipPosesHorizontal ps sz) sz = ps)"
proof -
  have k: "flip_kp sz (flip_kp sz kp) = kp"
    if "is_double (kp_x kp)" and "is_double (dsub (width sz) 1 - kp_x kp)" for kp
  proof -
    have "dsub (dsub (width sz) 1) (kp_x kp) = dsub (width sz) 1 - kp_x kp"
      using that(2) by (simp add: dsub_def is_double_def)
    moreover have "dsub (dsub (width sz) 1) (dsub (width sz) 1 - kp_x kp) = kp_x kp"
      using that(1) by (simp add: dsub_def is_double_def)
    ultimately show ?thesis by (simp add: flip_kp_def)
  qed
  have p: "p\<lparr>keypoints := map (flip_kp sz) (map (flip_kp sz) (keypoints p))\<rparr> = p"
    if "\<forall>kp \<in> set (keypoints p).
          is_double (kp_x kp) \<and> is_double (dsub (width sz) 1 - kp_x kp)" for p :: pose
  proof -
    have "map (flip_kp sz) (map (flip_kp sz) (keypoints p)) = keypoints p"
      using that k by (simp add: map_idI)
    then show ?thesis by simp
  qed
  have y: "map (map kp_y \<circ> keypoints) (flipPosesHorizontal (flipPosesHorizontal ps sz) sz)
     = map (map kp_y \<circ> keypoints) ps"
    by (simp add: flipPosesHorizontal_def flip_kp_def comp_def)
  have s: "map (map kp_score \<circ> keypoints) (flipPosesHorizontal (flipPosesHorizontal ps sz) sz)
     = map (map kp_score \<circ> keypoints) ps"
    by (simp add: flipPosesHorizontal_def flip_kp_def comp_def)
  have x: "flipPosesHorizontal (flipPosesHorizontal ps sz) sz = ps"
    if "\<forall>p \<in> set ps. \<forall>kp \<in> set (keypoints p).
          is_double (kp_x kp) \<and> is_double (dsub (width sz) 1 - kp_x kp)"
    using that p by (simp add: flipPosesHorizontal_def comp_def map_idI)
  show ?thesis using y s x by blast
qed

theorem flip_twice_exact_witness:
  "set (keypoints (wrist_pose 100 50 (Some 0.9)))
     = {\<lparr>kp_x = 100, kp_y = 50, kp_score = Some 0.9\<rparr>}
   \<and> is_double 100
   \<and> is_double (dsub (width imageSize) 1 - 100)
   \<and> flipPosesHorizontal
        (flipPosesHorizontal [wrist_pose 100 50 (Some 0.9)] imageSize) imageSize
      = [wrist_pose 100 50 (Some 0.9)]"
proof -
  have k: "set (keypoints (wrist_pose 100 50 (Some 0.9)))
     = {\<lparr>kp_x = 100, kp_y = 50, kp_score = Some 0.9\<rparr>}"
    by (simp add: wrist_pose_def)
  have d: "is_double 100" by (rule double_100)
  have f: "is_double (dsub (width imageSize) 1 - 100)"
    using flipped_100_exact by (simp add: imageSize_def)
  have h: "\<forall>p \<in> set [wrist_pose 100 50 (Some 0.9)]. \<forall>kp \<in> set (keypoints p).
      is_double (kp_x kp) \<and> is_double (dsub (width imageSize) 1 - kp_x kp)"
    using d f by (simp add: k)
  from flip_twice_exact [of "[wrist_pose 100 50 (Some 0.9)]" imageSize] h
  have "flipPosesHorizontal
        (flipPosesHorizontal [wrist_pose 100 50 (Some 0.9)] imageSize) imageSize
      = [wrist_pose 100 50 (Some 0.9)]"
    by blast
  with k d f show ?thesis by blast
qed






section \<open>Properties of the gravity timer\<close>

lemma setGravity_1: "intervalNumber w = 1 \<Longrightarrow>
   gravity (setGravity w) = (0, 0.5) \<and> intervalNumber (setGravity w) = 2"
  by (simp add: setGravity_def gravity_def)

lemma setGravity_2: "intervalNumber w = 2 \<Longrightarrow>
   gravity (setGravity w) = (0, - 0.5) \<and> intervalNumber (setGravity w) = 3"
  by (simp add: setGravity_def gravity_def)

lemma setGravity_3: "intervalNumber w = 3 \<Longrightarrow>
   gravity (setGravity w) = (0.5, 0) \<and> intervalNumber (setGravity w) = 4"
  by (simp add: setGravity_def gravity_def)

lemma setGravity_4: "intervalNumber w = 4 \<Longrightarrow>
   gravity (setGravity w) = (- 0.5, 0) \<and> intervalNumber (setGravity w) = 1"
  by (simp add: setGravity_def gravity_def)

lemma ticks_intervalNumber:
  "intervalNumber w = 1 \<Longrightarrow> intervalNumber (ticks k w) = 1 + int (k mod 4)"
proof (induction k)
  case 0
  then show ?case by simp
next
  case (Suc k)
  have "k mod 4 = 0 \<or> k mod 4 = 1 \<or> k mod 4 = 2 \<or> k mod 4 = 3" by arith
  then show ?case
    using Suc setGravity_1 [of "ticks k w"] setGravity_2 [of "ticks k w"]
      setGravity_3 [of "ticks k w"] setGravity_4 [of "ticks k w"]
    by (auto simp: mod_Suc)
qed

lemma ticks_gravity:
  assumes "intervalNumber w = 1"
  shows "gravity (ticks (Suc k) w) = directions ! (k mod 4)"
proof -
  have i: "intervalNumber (ticks k w) = 1 + int (k mod 4)"
    using assms by (rule ticks_intervalNumber)
  have "k mod 4 = 0 \<or> k mod 4 = 1 \<or> k mod 4 = 2 \<or> k mod 4 = 3" by arith
  then show ?thesis
    using i setGravity_1 [of "ticks k w"] setGravity_2 [of "ticks k w"]
      setGravity_3 [of "ticks k w"] setGravity_4 [of "ticks k w"]
    by (auto simp: directions_def)
qed

lemma residue_shift:
  fixes a i :: nat
  assumes "i < 4"
  shows "(a + (i + 4 - a mod 4) mod 4) mod 4 = i"
proof -
  define r where "r = a mod 4"
  have r: "r = 0 \<or> r = 1 \<or> r = 2 \<or> r = 3" unfolding r_def by arith
  have i: "i = 0 \<or> i = 1 \<or> i = 2 \<or> i = 3" using assms by arith
  have "(a + (i + 4 - r) mod 4) mod 4 = (r + (i + 4 - r) mod 4) mod 4"
    unfolding r_def by (simp add: mod_add_left_eq)
  also have "\<dots> = i" using r i by auto
  finally show ?thesis unfolding r_def .
qed

lemma first_firing:
  fixes t :: nat
  defines "a \<equiv> (t + 2999) div 3000 - 1"
  shows "t \<le> Suc a * 3000 \<and> Suc a * 3000 \<le> t + 3000"
proof -
  define q where "q = (t + 2999) div 3000"
  have f1: "q * 3000 \<le> t + 2999"
    unfolding q_def by (rule div_times_less_eq_dividend)
  have "t + 2999 = q * 3000 + (t + 2999) mod 3000"
    unfolding q_def by simp
  moreover have "(t + 2999) mod 3000 < 3000" by simp
  ultimately have f2: "t + 2999 < q * 3000 + 3000" by linarith
  have a: "a = q - 1" by (simp add: a_def q_def)
  show ?thesis
  proof (cases "q = 0")
    case True
    then show ?thesis using f1 f2 a by simp
  next
    case False
    then have "Suc a = q" using a by simp
    then show ?thesis using f1 f2 by simp
  qed
qed

lemma window_has_direction:
  fixes t L i :: nat
  assumes "12000 \<le> L" and "i < 4"
  shows "\<exists>k. fires_in 3000 k t (t + L) \<and> (k - 1) mod 4 = i"
proof -
  define a where "a = (t + 2999) div 3000 - 1"
  define j where "j = (i + 4 - a mod 4) mod 4"
  define k where "k = Suc (a + j)"
  have j3: "j < 4" by (simp add: j_def)
  have lo: "t \<le> Suc a * 3000" and hi: "Suc a * 3000 \<le> t + 3000"
    unfolding a_def using first_firing [of t] by simp_all
  have "k * 3000 = Suc a * 3000 + j * 3000" by (simp add: k_def)
  moreover have "j * 3000 \<le> 9000" using j3 by simp
  ultimately have "t \<le> k * 3000 \<and> k * 3000 \<le> t + L"
    using lo hi assms(1) by linarith
  then have "fires_in 3000 k t (t + L)"
    by (simp add: fires_in_def k_def)
  moreover have "(k - 1) mod 4 = i"
    unfolding k_def j_def using residue_shift [OF assms(2), of a] by simp
  ultimately show ?thesis by blast
qed

section \<open>Properties of the render loop\<close>

lemma createDetector_call_flags:
  assumes "model st = model st'" and "backend st = backend st'"
    and "modelConfig st = modelConfig st'"
  shows "createDetector_call v st = createDetector_call v st'"
  unfolding createDetector_call_def blazePose_case_def moveNet_case_def assms ..

text \<open>
  C4. When \<open>isBackendChanged\<close> is set at the start of \<open>checkGuiUpdate\<close> (and the
  awaited camera set-up and \<open>setBackendAndEnvFlags\<close> return), the call cancels the
  pending frame, disposes the current detector if there is one, reapplies the flags and
  the backend, asks the library for a new detector, and ends with the three dirty flags
  false, whether the construction returned a detector or threw (then the detector is
  \<open>null\<close> and the error is shown).
\<close>

theorem checkGuiUpdate_backend_changed:
  assumes "isBackendChanged (STATE s)"
    and "setupCamera_throws e = None"
    and "setBackendAndEnvFlags_throws e = None"
    and "createDetector_call (mpPose_VERSION e) (STATE s) = (mdl, cfg)"
  shows "\<exists>s'. checkGuiUpdate e s = Inr s'
          \<and> \<not> isModelChanged (STATE s') \<and> \<not> isFlagChanged (STATE s')
          \<and> \<not> isBackendChanged (STATE s')
          \<and> trace s' = trace s
               @ (if isTargetFPSChanged (STATE s) \<or> isSizeOptionChanged (STATE s)
                  then [SetupCamera] else [])
               @ [CancelAnimationFrame]
               @ (case detector s of Some d \<Rightarrow> [Dispose d] | None \<Rightarrow> [])
               @ [SetBackendAndEnvFlags (flags (STATE s)) (backend (STATE s)),
                  CreateDetector mdl cfg]
               @ (case posedetection_createDetector e mdl cfg of
                    Inl err \<Rightarrow> [Alert err] | Inr d \<Rightarrow> [])
          \<and> detector s' = (case posedetection_createDetector e mdl cfg of
                             Inl err \<Rightarrow> None | Inr d \<Rightarrow> Some d)"
proof -
  have call: "\<And>st. model st = model (STATE s) \<Longrightarrow> backend st = backend (STATE s)
      \<Longrightarrow> modelConfig st = modelConfig (STATE s)
      \<Longrightarrow> createDetector_call (mpPose_VERSION e) st = (mdl, cfg)"
    using assms(4) createDetector_call_flags by metis
  show ?thesis
    using assms(1-3)
    by (cases "detector s"; cases "posedetection_createDetector e mdl cfg")
       (simp_all add: checkGuiUpdate_def replace_camera_def replace_detector_def
          try_createDetector_def emit_def Let_def call)
qed

theorem checkGuiUpdate_backend_changed_witness:
  "isBackendChanged (STATE backend_changed_state)
   \<and> setupCamera_throws failing_env = None
   \<and> setBackendAndEnvFlags_throws failing_env = None
   \<and> (\<exists>s'. checkGuiUpdate failing_env backend_changed_state = Inr s'
          \<and> \<not> isModelChanged (STATE s') \<and> \<not> isFlagChanged (STATE s')
          \<and> \<not> isBackendChanged (STATE s')
          \<and> detector s' = None
          \<and> trace s' =
              [CancelAnimationFrame, Dispose 3, SetBackendAndEnvFlags [] ''tfjs-webgl'',
               CreateDetector MoveNet [(''modelType'', JModelType SINGLEPOSE_LIGHTNING)],
               Alert (Thrown ''load failed'')])"
proof -
  have h1: "isBackendChanged (STATE backend_changed_state)"
    by (simp add: backend_changed_state_def)
  have h2: "setupCamera_throws failing_env = None"
    by (simp add: failing_env_def good_env_def)
  have h3: "setBackendAndEnvFlags_throws failing_env = None"
    by (simp add: failing_env_def good_env_def)
  have h4: "createDetector_call (mpPose_VERSION failing_env) (STATE backend_changed_state) =
      (MoveNet, [(''modelType'', JModelType SINGLEPOSE_LIGHTNING)])"
    by (simp add: backend_changed_state_def movenet_STATE_def createDetector_call_def
        moveNet_case_def movenet_modelType_of_def)
  have t: "posedetection_createDetector failing_env MoveNet
      [(''modelType'', JModelType SINGLEPOSE_LIGHTNING)] = Inl (Thrown ''load failed'')"
    by (simp add: failing_env_def)
  have s: "trace backend_changed_state = [] \<and> detector backend_changed_state = Some 3
      \<and> flags (STATE backend_changed_state) = []
      \<and> backend (STATE backend_changed_state) = ''tfjs-webgl''
      \<and> \<not> isTargetFPSChanged (STATE backend_changed_state)
      \<and> \<not> isSizeOptionChanged (STATE backend_changed_state)"
    by (simp add: backend_changed_state_def running_state_def movenet_STATE_def)
  from checkGuiUpdate_backend_changed [OF h1 h2 h3 h4]
  have "\<exists>s'. checkGuiUpdate failing_env backend_changed_state = Inr s'
          \<and> \<not> isModelChanged (STATE s') \<and> \<not> isFlagChanged (STATE s')
          \<and> \<not> isBackendChanged (STATE s')
          \<and> detector s' = None
          \<and> trace s' =
              [CancelAnimationFrame, Dispose 3, SetBackendAndEnvFlags [] ''tfjs-webgl'',
               CreateDetector MoveNet [(''modelType'', JModelType SINGLEPOSE_LIGHTNING)],
               Alert (Thrown ''load failed'')]"
    by (auto simp: t s)
  with h1 h2 h3 show ?thesis by simp
qed

text \<open>
  When \<open>estimatePoses\<close> throws, the handler sets the detector to \<open>null\<close>; the variable
  \<open>poses\<close> keeps the value of the last estimation that returned.
\<close>

lemma estimate_failure_keeps_poses:
  assumes "detector s = Some d" and "estimatePoses e d = Inl err"
  shows "detector (estimate_step e s) = None \<and> poses (estimate_step e s) = poses s"
  using assms by (simp add: estimate_step_def emit_def)

text \<open>
  C2. The claim: after a frame whose pose estimation throws, the detector is \<open>null\<close>, the
  loop goes on, and the next frame draws the camera only, with no overlay and no bridge
  call. The first two parts hold. The last does not when an earlier frame left poses in
  the module's variable: from a state with a detector and one retained pose, two frames
  in which every estimation throws end with the detector \<open>null\<close>, and both the failing
  frame and the next one draw the retained pose and pass it to \<open>usePoses\<close> (flipped once
  more by then).
\<close>

theorem stale_poses_after_failure:
  "map_sum id (\<lambda>s. (detector s, trace s)) (frames [failing_env, failing_env] running_state) =
     Inr (None,
          [EstimatePoses 3 (JNum 1), Dispose 3, Alert (Thrown ''bad model output''), DrawCtx,
           DrawResults [wrist_pose 100 50 (Some 0.9)], UsePoses [wrist_pose 100 50 (Some 0.9)],
           RequestAnimationFrame,
           DrawCtx,
           DrawResults [wrist_pose 1179 50 (Some 0.9)], UsePoses [wrist_pose 1179 50 (Some 0.9)],
           RequestAnimationFrame])"
  by (simp add: running_state_def failing_env_def good_env_def movenet_STATE_def
      renderPrediction_def checkGuiUpdate_def replace_camera_def replace_detector_def
      renderResult_def estimate_step_def should_draw_def emit_def Let_def
      usePoses_def flipPosesHorizontal_def flip_kp_def imageSize_def wrist_pose_def
      score_of_def scoreThreshold_def runMatter_def scene1_heap_def flipped_100)

section \<open>Properties of the scenes\<close>

lemma scene1_others:
  "list_all (\<lambda>b. \<not> isStatic b \<and> attractors b = 0) (tl scene1_heap)"
  by (simp add: scene1_heap_def Bodies_rectangle_def)

text \<open>
  C3, as the code has it. In scene 1 the record that \<open>runMatter\<close> returns refers, in
  \<open>attractiveBody\<close>, to the static attractor circle created at the centre of the screen
  (1536, 864) and added first to the world: the body the bridge translates is that body.
  It is the only static body and the only one with an attractor; every other body created
  is a letter or word rectangle. There is no second attractor body.
\<close>

theorem scene1_single_attractor:
  "attractiveBody (runMatter gx gy gs 1) = Some 0
   \<and> hd (world_bodies (runMatter gx gy gs 1)) = 0
   \<and> heap (runMatter gx gy gs 1) ! 0 = Bodies_circle 1536 864 153.6 True 1
   \<and> (\<forall>r < length (heap (runMatter gx gy gs 1)). r \<noteq> 0 \<longrightarrow>
         \<not> isStatic (heap (runMatter gx gy gs 1) ! r)
         \<and> attractors (heap (runMatter gx gy gs 1) ! r) = 0)"
proof -
  have h: "heap (runMatter gx gy gs 1) = scene1_heap"
    by (simp add: runMatter_def)
  have a: "attractiveBody (runMatter gx gy gs 1) = Some 0"
    by (simp add: runMatter_def)
  have w: "hd (world_bodies (runMatter gx gy gs 1)) = 0"
    by (simp add: runMatter_def scene1_world_bodies_def)
  have c: "scene1_heap ! 0 = Bodies_circle 1536 864 153.6 True 1"
    by (simp add: scene1_heap_def dimensions_def attractor_radius_def)
  have o: "\<not> isStatic (scene1_heap ! r) \<and> attractors (scene1_heap ! r) = 0"
    if r: "r < length scene1_heap" "r \<noteq> 0" for r
  proof -
    have l: "r - 1 < length (tl scene1_heap)" using r by simp
    then have "tl scene1_heap ! (r - 1) = scene1_heap ! Suc (r - 1)"
      by (rule nth_tl)
    then have "scene1_heap ! r = tl scene1_heap ! (r - 1)"
      using r by simp
    then show ?thesis
      using scene1_others l by (simp add: list_all_length)
  qed
  show ?thesis unfolding h using a w c o by blast
qed

theorem scene1_single_attractor_witness:
  "(10::nat) < length (heap (runMatter 0 1 0.001 1)) \<and> (10::nat) \<noteq> 0
   \<and> \<not> isStatic (heap (runMatter 0 1 0.001 1) ! 10)
   \<and> attractors (heap (runMatter 0 1 0.001 1) ! 10) = 0
   \<and> attractiveBody (runMatter 0 1 0.001 1) = Some 0"
proof -
  have l: "(10::nat) < length (heap (runMatter 0 1 0.001 1))"
    by (simp add: runMatter_def scene1_heap_def)
  from scene1_single_attractor [of 0 1 "0.001"] l show ?thesis by simp
qed

text \<open>
  C3, as the claim states it: the body the bridge translates would be distinct from the
  static attractor at the centre, the first body added to the world. It is not: the two
  references are equal.
\<close>

theorem bridge_body_is_center_body:
  "\<not> (attractiveBody (runMatter 0 1 0.001 1)
        \<noteq> Some (hd (world_bodies (runMatter 0 1 0.001 1))))"
  by (simp add: runMatter_def scene1_world_bodies_def)

text \<open>
  C5. In scene 2 the timer is registered with a period of 3000 ms and the counter starts
  at 1. Every firing sets the gravity vector to one of the four directions, in the order
  down, up, right, left, again and again: the firing number \<open>k + 1\<close> sets the direction
  number \<open>k mod 4\<close>. Every window of at least 12 seconds contains, for each of the four
  directions, a firing that sets it.
\<close>

theorem gravity_cycle:
  "intervalID (runMatter gx gy gs 2) = Some 3000
   \<and> intervalNumber (runMatter gx gy gs 2) = 1
   \<and> (\<forall>k. gravity (ticks (Suc k) (runMatter gx gy gs 2)) = directions ! (k mod 4))
   \<and> (\<forall>t L i. 12000 \<le> L \<longrightarrow> i < 4 \<longrightarrow>
         (\<exists>k. fires_in 3000 k t (t + L)
              \<and> gravity (ticks k (runMatter gx gy gs 2)) = directions ! i))"
proof -
  define w0 where "w0 = runMatter gx gy gs 2"
  have d: "intervalID w0 = Some 3000"
    by (simp add: w0_def runMatter_def)
  have n: "intervalNumber w0 = 1"
    by (simp add: w0_def runMatter_def)
  have cyc: "gravity (ticks (Suc k) w0) = directions ! (k mod 4)" for k
    using n by (rule ticks_gravity)
  have win: "\<exists>k. fires_in 3000 k t (t + L) \<and> gravity (ticks k w0) = directions ! i"
    if h: "12000 \<le> L" "i < 4" for t L i :: nat
  proof -
    obtain k where k: "fires_in 3000 k t (t + L)" "(k - 1) mod 4 = i"
      using window_has_direction [OF h] by blast
    then have "1 \<le> k" by (simp add: fires_in_def)
    then have "k = Suc (k - 1)" by simp
    then have "gravity (ticks k w0) = directions ! ((k - 1) mod 4)"
      using cyc [of "k - 1"] by simp
    with k show ?thesis by blast
  qed
  have "intervalID w0 = Some 3000 \<and> intervalNumber w0 = 1
   \<and> (\<forall>k. gravity (ticks (Suc k) w0) = directions ! (k mod 4))
   \<and> (\<forall>t L i. 12000 \<le> L \<longrightarrow> i < 4 \<longrightarrow>
         (\<exists>k. fires_in 3000 k t (t + L) \<and> gravity (ticks k w0) = directions ! i))"
    using d n cyc win by blast
  then show ?thesis unfolding w0_def .
qed

theorem gravity_cycle_witness:
  "gravity (ticks 6 (runMatter 0 1 0.001 2)) = (0, - 0.5)
   \<and> (12000::nat) \<le> 12000 \<and> (3::nat) < 4
   \<and> (\<exists>k. fires_in 3000 k 0 12000
          \<and> gravity (ticks k (runMatter 0 1 0.001 2)) = (- 0.5, 0))"
proof -
  define w0 where "w0 = runMatter 0 1 0.001 2"
  note g = gravity_cycle [of 0 1 "0.001", folded w0_def]
  from g have "gravity (ticks (Suc 5) w0) = directions ! (5 mod 4)"
    by blast
  moreover have "Suc 5 = 6" by simp
  moreover have "directions ! (5 mod 4) = (0, - 0.5)" by (simp add: directions_def)
  ultimately have a: "gravity (ticks 6 w0) = (0, - 0.5)"
    by simp
  from g have "(12000::nat) \<le> 12000 \<longrightarrow> (3::nat) < 4 \<longrightarrow>
         (\<exists>k. fires_in 3000 k 0 (0 + 12000) \<and> gravity (ticks k w0) = directions ! 3)"
    by blast
  moreover have "directions ! 3 = (- 0.5, 0)" by (simp add: directions_def)
  ultimately have b: "\<exists>k. fires_in 3000 k 0 12000 \<and> gravity (ticks k w0) = (- 0.5, 0)"
    by simp
  from a b show ?thesis unfolding w0_def by simp
qed

end
